theory Spec2Isabelle
  imports Complex_Main "HOL-Library.AList"
begin

section \<open>Python values and the built-in operations the handler uses\<close>

text \<open>
  The request body, the weather record and every intermediate dictionary hold dynamically
  typed Python values. A Python \<open>float\<close> is modelled by the rational number it denotes:
  arithmetic is exact, and the rounding of IEEE doubles, infinities and NaN are not
  represented. A Python \<open>int\<close> is an unbounded \<open>int\<close>.
\<close>

datatype pyval =
    PNone
  | PBool bool
  | PInt int
  | PFloat rat
  | PStr string
  | PList "pyval list"
  | PDict "(string \<times> pyval) list"

datatype py_error = KeyError | ValueError | TypeError | ZeroDivisionError

type_synonym pydict = "string \<Rightarrow> pyval option"

text \<open>Sequencing of fallible steps: the first exception raised ends the computation.\<close>

definition and_then :: "'e + 'a \<Rightarrow> ('a \<Rightarrow> 'e + 'b) \<Rightarrow> 'e + 'b" where
  "and_then m k = (case m of Inl e \<Rightarrow> Inl e | Inr x \<Rightarrow> k x)"

text \<open>\<open>d.get(k)\<close>, \<open>d.get(k, default)\<close> and \<open>d[k]\<close>.\<close>

definition dict_get :: "pydict \<Rightarrow> string \<Rightarrow> pyval" where
  "dict_get d k = (case d k of None \<Rightarrow> PNone | Some v \<Rightarrow> v)"

definition dict_get_default :: "pydict \<Rightarrow> string \<Rightarrow> pyval \<Rightarrow> pyval" where
  "dict_get_default d k dflt = (case d k of None \<Rightarrow> dflt | Some v \<Rightarrow> v)"

definition dict_index :: "pydict \<Rightarrow> string \<Rightarrow> py_error + pyval" where
  "dict_index d k = (case d k of None \<Rightarrow> Inl KeyError | Some v \<Rightarrow> Inr v)"

text \<open>
  The numeric value of a Python number; \<open>bool\<close> is a subclass of \<open>int\<close>.
  Everything else is not a number.
\<close>

fun py_num :: "pyval \<Rightarrow> rat option" where
  "py_num (PBool b) = Some (if b then 1 else 0)"
| "py_num (PInt i) = Some (of_int i)"
| "py_num (PFloat x) = Some x"
| "py_num PNone = None"
| "py_num (PStr s) = None"
| "py_num (PList vs) = None"
| "py_num (PDict kvs) = None"

text \<open>
  \<open>float(v)\<close>. The conversion of a string is Python's own parser, which is not part of
  the repository: it is the parameter \<open>parse\<close>, giving the float a string denotes, or
  \<open>None\<close> where \<open>float\<close> raises \<open>ValueError\<close>. A string that denotes an infinity or
  NaN has no value in this model.
\<close>

fun py_float :: "(string \<Rightarrow> rat option) \<Rightarrow> pyval \<Rightarrow> py_error + rat" where
  "py_float parse PNone = Inl TypeError"
| "py_float parse (PBool b) = Inr (if b then 1 else 0)"
| "py_float parse (PInt i) = Inr (of_int i)"
| "py_float parse (PFloat x) = Inr x"
| "py_float parse (PStr s) = (case parse s of None \<Rightarrow> Inl ValueError | Some x \<Rightarrow> Inr x)"
| "py_float parse (PList vs) = Inl TypeError"
| "py_float parse (PDict kvs) = Inl TypeError"

text \<open>\<open>int(x)\<close> on a float truncates toward zero.\<close>

definition py_int :: "rat \<Rightarrow> int" where
  "py_int x = (if 0 \<le> x then \<lfloor>x\<rfloor> else \<lceil>x\<rceil>)"

text \<open>\<open>round(x, n)\<close> on a float rounds to \<open>n\<close> decimals, a tie going to the even digit.\<close>

definition round_half_even :: "rat \<Rightarrow> int" where
  "round_half_even x =
     (let f = \<lfloor>x\<rfloor>; d = x - of_int f
      in if d < 1 / 2 then f else if 1 / 2 < d then f + 1 else if even f then f else f + 1)"

definition py_round :: "rat \<Rightarrow> nat \<Rightarrow> rat" where
  "py_round x n = of_int (round_half_even (x * 10 ^ n)) / 10 ^ n"

text \<open>\<open>x / y\<close> on floats raises \<open>ZeroDivisionError\<close> when the divisor is zero.\<close>

definition py_truediv :: "rat \<Rightarrow> rat \<Rightarrow> py_error + rat" where
  "py_truediv x y = (if y = 0 then Inl ZeroDivisionError else Inr (x / y))"

text \<open>
  \<open>v * x\<close> where the right operand \<open>x\<close> is a float and the left operand is any request
  value: a number is multiplied, every other value raises \<open>TypeError\<close> (a string or a
  list is a sequence, which cannot be multiplied by a float).
\<close>

fun py_mul_float :: "pyval \<Rightarrow> rat \<Rightarrow> py_error + rat" where
  "py_mul_float (PBool b) x = Inr ((if b then 1 else 0) * x)"
| "py_mul_float (PInt i) x = Inr (of_int i * x)"
| "py_mul_float (PFloat y) x = Inr (y * x)"
| "py_mul_float PNone x = Inl TypeError"
| "py_mul_float (PStr s) x = Inl TypeError"
| "py_mul_float (PList vs) x = Inl TypeError"
| "py_mul_float (PDict kvs) x = Inl TypeError"

section \<open>The feature deriver (\<open>predict\<close>, steps 1 to 3)\<close>

text \<open>
  The feature dictionary after the coercion loop and the derived-feature assignments.
  Every key of \<open>numeric_features\<close> is present in the dictionary literal, so after the
  loop each of the sixteen holds a float; \<open>roof_type\<close> is left as supplied.
\<close>

record features =
  annual_rainfall_mm :: rat
  max_daily_rainfall_mm :: rat
  rainy_days_count :: rat
  avg_temperature_c :: rat
  evaporation_rate_mmday :: rat
  clay_pct :: rat
  sand_pct :: rat
  silt_pct :: rat
  latitude :: rat
  longitude :: rat
  elevation_m :: rat
  roof_area_m2 :: rat
  available_space_m2 :: rat
  roof_type :: pyval
  infiltration_rate_mmhr :: rat
  runoff_coefficient :: rat
  annual_runoff_m3 :: rat
  rainfall_intensity :: rat
  soil_water_capacity :: rat
  roof_efficiency :: rat
  climate_aridity :: rat
  harvest_potential :: rat
  temperature_factor :: rat
  elevation_factor :: rat

text \<open>
  One round of the coercion loop: \<open>float(v)\<close>, and \<open>0.0\<close> when it raises
  \<open>ValueError\<close> or \<open>TypeError\<close>.
\<close>

definition coerce :: "(string \<Rightarrow> rat option) \<Rightarrow> pyval \<Rightarrow> rat" where
  "coerce parse v = (case py_float parse v of Inl e \<Rightarrow> 0 | Inr x \<Rightarrow> x)"

text \<open>
  Steps 1 to 3 of \<open>predict\<close>: the raw values are read from the request \<open>data\<close> and the
  weather record, \<open>runoff_coefficient\<close> is converted by a bare \<open>float(...)\<close> while the
  dictionary literal is built (outside the loop's \<open>try\<close>), the loop coerces the sixteen
  numeric features, and the seven derived features are computed. Three of them divide.
\<close>

definition derive_features ::
    "(string \<Rightarrow> rat option) \<Rightarrow> pydict \<Rightarrow> pydict \<Rightarrow> py_error + features" where
  "derive_features parse weather_data data =
     (let roof_area = dict_get data ''roof_area_m2'';
          available_space = dict_get_default data ''available_space_m2'' roof_area
      in
      and_then (dict_index weather_data ''annual_rainfall_mm'') (\<lambda>w_rain.
      and_then (dict_index weather_data ''max_daily_rainfall_mm'') (\<lambda>w_max.
      and_then (dict_index weather_data ''rainy_days_count'') (\<lambda>w_days.
      and_then (dict_index weather_data ''avg_temperature_c'') (\<lambda>w_temp.
      and_then (dict_index weather_data ''evaporation_rate_mmday'') (\<lambda>w_evap.
      and_then (py_float parse (dict_get_default data ''runoff_coefficient'' (PFloat (8 / 10))))
        (\<lambda>runoff.
      let rain = coerce parse w_rain;
          max_daily = coerce parse w_max;
          rainy_days = coerce parse w_days;
          temp = coerce parse w_temp;
          evap = coerce parse w_evap;
          clay = coerce parse (dict_get_default data ''clay_pct'' (PInt 30));
          sand = coerce parse (dict_get_default data ''sand_pct'' (PInt 40));
          silt = coerce parse (dict_get_default data ''silt_pct'' (PInt 30));
          lat = coerce parse (dict_get data ''latitude'');
          lon = coerce parse (dict_get data ''longitude'');
          elevation = coerce parse (dict_get_default data ''elevation_m'' (PInt 100));
          roof = coerce parse roof_area;
          space = coerce parse available_space;
          infiltration = coerce parse (dict_get_default data ''infiltration_rate_mmhr'' (PInt 10));
          runoff_m3 = coerce parse (dict_get_default data ''annual_runoff_m3'' (PInt 0))
      in
      and_then (py_truediv max_daily (rainy_days + 1)) (\<lambda>intensity.
      and_then (py_truediv roof (space + 1)) (\<lambda>efficiency.
      and_then (py_truediv evap (rain / 365 + 1 / 10)) (\<lambda>aridity.
      Inr \<lparr> annual_rainfall_mm = rain,
            max_daily_rainfall_mm = max_daily,
            rainy_days_count = rainy_days,
            avg_temperature_c = temp,
            evaporation_rate_mmday = evap,
            clay_pct = clay,
            sand_pct = sand,
            silt_pct = silt,
            latitude = lat,
            longitude = lon,
            elevation_m = elevation,
            roof_area_m2 = roof,
            available_space_m2 = space,
            roof_type = dict_get data ''roof_type'',
            infiltration_rate_mmhr = infiltration,
            runoff_coefficient = runoff,
            annual_runoff_m3 = runoff_m3,
            rainfall_intensity = intensity,
            soil_water_capacity = clay * (4 / 10) + silt * (3 / 10) + sand * (1 / 10),
            roof_efficiency = efficiency,
            climate_aridity = aridity,
            harvest_potential = rain * roof * runoff / 1000,
            temperature_factor = temp / 30,
            elevation_factor = elevation / 1000 \<rparr>))))))))))"

section \<open>The water-balance calculator (\<open>predict\<close>, step 6)\<close>

definition daily_usage :: int where
  "daily_usage = 800"

definition monsoon_days :: int where
  "monsoon_days = 90"

text \<open>The two dictionary literals, in insertion order.\<close>

definition monthly_rainfall_distribution :: "(string \<times> rat) list" where
  "monthly_rainfall_distribution =
     [(''January'', 1 / 100), (''February'', 1 / 100), (''March'', 2 / 100),
      (''April'', 3 / 100), (''May'', 5 / 100), (''June'', 15 / 100),
      (''July'', 25 / 100), (''August'', 20 / 100), (''September'', 15 / 100),
      (''October'', 8 / 100), (''November'', 3 / 100), (''December'', 2 / 100)]"

definition days_in_month :: "(string \<times> int) list" where
  "days_in_month =
     [(''January'', 31), (''February'', 28), (''March'', 31), (''April'', 30),
      (''May'', 31), (''June'', 30), (''July'', 31), (''August'', 31),
      (''September'', 30), (''October'', 31), (''November'', 30), (''December'', 31)]"

text \<open>
  \<open>roof_area * annual_rainfall_m * features['runoff_coefficient'] * 1000\<close>, where
  \<open>roof_area\<close> is the value read from the request, not the coerced feature.
\<close>

definition annual_harvestable_of :: "pyval \<Rightarrow> features \<Rightarrow> py_error + rat" where
  "annual_harvestable_of roof_area f =
     (let annual_rainfall_m = annual_rainfall_mm f / 1000
      in and_then (py_mul_float roof_area annual_rainfall_m)
           (\<lambda>x. Inr (x * runoff_coefficient f * 1000)))"

text \<open>
  The loop over \<open>monthly_rainfall_distribution.items()\<close>. The state is the pair of
  dictionaries \<open>monthly_harvestable\<close> and \<open>monthly_storage_requirements\<close>; an
  assignment \<open>d[k] = v\<close> is \<open>AList.update\<close>, which keeps insertion order.
\<close>

fun monthly_loop ::
    "rat \<Rightarrow> (string \<times> rat) list \<Rightarrow> (string \<times> int) list \<times> (string \<times> int) list
       \<Rightarrow> py_error + (string \<times> int) list \<times> (string \<times> int) list" where
  "monthly_loop annual [] st = Inr st"
| "monthly_loop annual ((month, percentage) # rest) (harvestable, storage) =
     (let month_harvestable = annual * percentage;
          harvestable' = AList.update month (py_int month_harvestable) harvestable
      in case map_of days_in_month month of
           None \<Rightarrow> Inl KeyError
         | Some days \<Rightarrow>
             (let monthly_usage = daily_usage * days;
                  storage_requirement = max (of_int monthly_usage - month_harvestable) 0;
                  storage' = AList.update month (py_int (storage_requirement * (12 / 10))) storage
              in monthly_loop annual rest (harvestable', storage')))"

record water_balance =
  annual_harvestable :: rat
  monthly_harvestable :: "(string \<times> int) list"
  monthly_storage_requirements :: "(string \<times> int) list"
  tank_capacity :: rat

definition calculate_water_balance :: "pyval \<Rightarrow> features \<Rightarrow> py_error + water_balance" where
  "calculate_water_balance roof_area f =
     and_then (annual_harvestable_of roof_area f) (\<lambda>annual.
     and_then (monthly_loop annual monthly_rainfall_distribution ([], [])) (\<lambda>(harvestable, storage).
     Inr \<lparr> annual_harvestable = annual,
           monthly_harvestable = harvestable,
           monthly_storage_requirements = storage,
           tank_capacity = min (annual * (3 / 10)) (of_int (daily_usage * monsoon_days)) \<rparr>))"

section \<open>The handler \<open>predict\<close>\<close>

text \<open>
  The three trained models are loaded from files that are not part of the repository;
  they are the parameter \<open>models\<close>, a function of the feature dictionary.
\<close>

record prediction =
  predicted_category :: string
  predicted_score :: rat
  predicted_structure :: string

text \<open>
  The numeric content of the response. The formatted strings (\<open>recommendations\<close>,
  \<open>summary\<close>) repeat these numbers and are left out, as is \<open>prediction_id\<close>: the
  database step runs inside its own \<open>try\<close> and never changes the other fields.
\<close>

record response =
  feasibility_category :: string
  feasibility_score :: rat
  recommended_structure :: string
  recommended_tank_capacity_liters :: int
  response_monthly_storage_requirements :: "(string \<times> int) list"
  response_monthly_harvestable :: "(string \<times> int) list"
  response_weather_data :: pydict
  response_runoff_coefficient :: rat
  response_annual_rainfall_mm :: rat
  annual_harvestable_liters :: int
  recommended_tank_liters :: int

text \<open>
  ``Calculate annual runoff if not provided'': the recomputation multiplies the request's
  \<open>roof_area\<close>.
\<close>

definition recompute_annual_runoff :: "pyval \<Rightarrow> features \<Rightarrow> py_error + features" where
  "recompute_annual_runoff roof_area f =
     (if annual_runoff_m3 f = 0
      then (let annual_rainfall_m = annual_rainfall_mm f / 1000
            in and_then (py_mul_float roof_area annual_rainfall_m)
                 (\<lambda>x. Inr (f\<lparr>annual_runoff_m3 := x * runoff_coefficient f\<rparr>)))
      else Inr f)"

text \<open>
  The whole handler, for a request body that is a JSON object. \<open>Inl e\<close> is the outer
  \<open>except\<close> branch: the request is answered with status 500 and the message
  ``Prediction failed''. The weather record is what \<open>get_comprehensive_weather_data\<close>
  returned for the coordinates; logging has no effect on the result and is left out.
\<close>

definition predict ::
    "(string \<Rightarrow> rat option) \<Rightarrow> (features \<Rightarrow> prediction) \<Rightarrow> pydict \<Rightarrow> pydict
       \<Rightarrow> py_error + response" where
  "predict parse models weather_data data =
     (let roof_area = dict_get data ''roof_area_m2''
      in
      and_then (derive_features parse weather_data data) (\<lambda>f0.
      and_then (recompute_annual_runoff roof_area f0) (\<lambda>f.
      and_then (annual_harvestable_of roof_area f) (\<lambda>annual0.
      let p = models f
      in
      and_then (calculate_water_balance roof_area f) (\<lambda>wb.
      Inr \<lparr> feasibility_category = predicted_category p,
            feasibility_score = predicted_score p,
            recommended_structure = predicted_structure p,
            recommended_tank_capacity_liters = py_int (tank_capacity wb),
            response_monthly_storage_requirements = monthly_storage_requirements wb,
            response_monthly_harvestable = monthly_harvestable wb,
            response_weather_data = weather_data,
            response_runoff_coefficient = runoff_coefficient f,
            response_annual_rainfall_mm = annual_rainfall_mm f,
            annual_harvestable_liters = py_int (annual_harvestable wb),
            recommended_tank_liters = py_int (tank_capacity wb) \<rparr>)))))"

section \<open>The recharge-metrics estimator (\<open>IMDWeatherService\<close>)\<close>

text \<open>
  \<open>datetime.now()\<close> reads the system clock. The clock is not an argument of the Python
  methods; in the model the value read is the explicit argument \<open>now\<close>.
\<close>

record datetime =
  dt_year :: int
  dt_month :: nat
  dt_day :: nat
  dt_hour :: nat
  dt_minute :: nat
  dt_second :: nat

record seasonality =
  current_season :: string
  recharge_factor :: rat
  seasonal_rainfall_adjustment :: rat

definition calculate_seasonality :: "datetime \<Rightarrow> pydict \<Rightarrow> seasonality" where
  "calculate_seasonality now data =
     (let current_month = dt_month now
      in if current_month \<in> set [6, 7, 8, 9]
         then \<lparr> current_season = ''Monsoon'', recharge_factor = 15 / 10,
                seasonal_rainfall_adjustment = 15 / 10 \<rparr>
         else if current_month \<in> set [3, 4, 5]
         then \<lparr> current_season = ''Pre-Monsoon'', recharge_factor = 8 / 10,
                seasonal_rainfall_adjustment = 8 / 10 \<rparr>
         else if current_month \<in> set [10, 11]
         then \<lparr> current_season = ''Post-Monsoon'', recharge_factor = 12 / 10,
                seasonal_rainfall_adjustment = 12 / 10 \<rparr>
         else \<lparr> current_season = ''Winter'', recharge_factor = 5 / 10,
                seasonal_rainfall_adjustment = 5 / 10 \<rparr>)"

text \<open>
  The intensity bands. A rainfall value that is not a number makes the comparison raise;
  the method's own \<open>except\<close> then returns the two-key dictionary.
\<close>

record monsoon =
  monsoon_intensity :: string
  intensity_score :: rat
  peak_rainfall_capacity :: "pyval option"
  annual_rainfall_classification :: "string option"

definition calculate_monsoon_intensity :: "pydict \<Rightarrow> monsoon" where
  "calculate_monsoon_intensity data =
     (let annual_rainfall = dict_get_default data ''annual_rainfall_mm'' (PInt 1200);
          max_daily = dict_get_default data ''max_daily_rainfall_mm'' (PInt 50);
          banded = (\<lambda>intensity s.
            \<lparr> monsoon_intensity = intensity, intensity_score = s,
              peak_rainfall_capacity = Some max_daily,
              annual_rainfall_classification = Some intensity \<rparr>)
      in case py_num annual_rainfall of
           None \<Rightarrow> \<lparr> monsoon_intensity = ''Unknown'', intensity_score = 5 / 10,
                     peak_rainfall_capacity = None, annual_rainfall_classification = None \<rparr>
         | Some r \<Rightarrow>
             if 2000 < r then banded ''Very High'' (9 / 10)
             else if 1500 < r then banded ''High'' (7 / 10)
             else if 1000 < r then banded ''Moderate'' (5 / 10)
             else if 500 < r then banded ''Low'' (3 / 10)
             else banded ''Very Low'' (1 / 10))"

record recharge_metrics =
  recharge_evaporation_rate_mmday :: rat
  infiltration_potential :: rat
  recharge_efficiency :: rat
  recharge_seasonality :: seasonality
  recharge_monsoon_intensity :: monsoon

text \<open>
  \<open>_calculate_recharge_metrics\<close>. An operand that is not a number raises \<open>TypeError\<close>
  inside the \<open>try\<close>, and the method returns the empty dictionary: that is \<open>None\<close>.
\<close>

definition calculate_recharge_metrics :: "datetime \<Rightarrow> pydict \<Rightarrow> recharge_metrics option" where
  "calculate_recharge_metrics now data =
     (case py_num (dict_get_default data ''avg_temperature_c'' (PInt 25)) of
        None \<Rightarrow> None
      | Some temp \<Rightarrow>
     (case py_num (dict_get_default data ''current_humidity_percent'' (PInt 70)) of
        None \<Rightarrow> None
      | Some humidity \<Rightarrow>
     (case py_num (dict_get_default data ''current_wind_speed_kmh'' (PInt 10)) of
        None \<Rightarrow> None
      | Some wind_speed \<Rightarrow>
     (let evaporation_rate =
            max (1 / 10) ((temp - 10) * (100 - humidity) / 1000 * (1 + wind_speed / 50))
      in case py_num (dict_get_default data ''annual_rainfall_mm'' (PInt 1200)) of
        None \<Rightarrow> None
      | Some annual_rainfall \<Rightarrow>
     (let infiltration = min 1 (annual_rainfall / 2000);
          efficiency = infiltration * (1 - evaporation_rate / 10)
      in Some \<lparr> recharge_evaporation_rate_mmday = py_round evaporation_rate 2,
                infiltration_potential = py_round infiltration 3,
                recharge_efficiency = py_round efficiency 3,
                recharge_seasonality = calculate_seasonality now data,
                recharge_monsoon_intensity = calculate_monsoon_intensity data \<rparr>)))))"

section \<open>The formulas as the specification words them\<close>

definition spec_annual_harvestable_liters :: "rat \<Rightarrow> rat \<Rightarrow> rat \<Rightarrow> rat" where
  "spec_annual_harvestable_liters roof_area rainfall_mm coefficient =
     roof_area * (rainfall_mm / 1000) * coefficient * 1000"







section \<open>Concrete inputs\<close>

text \<open>The weather record \<open>default_weather\<close> of \<open>IMDWeatherService\<close>.\<close>

definition default_weather :: pydict where
  "default_weather = map_of
     [(''annual_rainfall_mm'', PInt 1200),
      (''max_daily_rainfall_mm'', PInt 50),
      (''rainy_days_count'', PInt 120),
      (''avg_temperature_c'', PInt 25),
      (''evaporation_rate_mmday'', PFloat (45 / 10)),
      (''humidity_percent'', PInt 70),
      (''wind_speed_kmh'', PInt 10),
      (''pressure_hpa'', PInt 1013),
      (''uv_index'', PInt 5)]"

text \<open>
  A stand-in for \<open>float\<close> on strings, used in the examples only: a non-empty string of
  decimal digits denotes its number, every other string is rejected here.
\<close>

fun digits_value :: "string \<Rightarrow> nat \<Rightarrow> nat option" where
  "digits_value [] acc = Some acc"
| "digits_value (c # cs) acc =
     (if c \<in> set ''0123456789''
      then digits_value cs (10 * acc + (of_char c - 48))
      else None)"

definition parse_digits :: "string \<Rightarrow> rat option" where
  "parse_digits s = (if s = [] then None else map_option of_nat (digits_value s 0))"

text \<open>A stand-in for the trained models, used in the examples only.\<close>

definition constant_models :: "features \<Rightarrow> prediction" where
  "constant_models f =
     \<lparr> predicted_category = ''High'', predicted_score = 1,
       predicted_structure = ''Storage Tank'' \<rparr>"

text \<open>The request that supplies \<open>roof_area_m2\<close> and nothing else.\<close>

definition roof_only_request :: "pyval \<Rightarrow> pydict" where
  "roof_only_request v = map_of [(''roof_area_m2'', v)]"

text \<open>The exception a computation ended with, if any.\<close>

definition rejected_with :: "py_error + 'a \<Rightarrow> py_error option" where
  "rejected_with m = (case m of Inl e \<Rightarrow> Some e | Inr x \<Rightarrow> None)"

text \<open>A field of the value a computation returned, when it did not raise.\<close>

definition returned_value :: "('r \<Rightarrow> 'a) \<Rightarrow> py_error + 'r \<Rightarrow> 'a option" where
  "returned_value field m = (case m of Inl e \<Rightarrow> None | Inr r \<Rightarrow> Some (field r))"



text \<open>
  The feature dictionary of the request \<open>{roof_area_m2: 0}\<close> under the default weather
  record.
\<close>

definition zero_roof_features :: features where
  "zero_roof_features =
     \<lparr> annual_rainfall_mm = 1200, max_daily_rainfall_mm = 50, rainy_days_count = 120,
       avg_temperature_c = 25, evaporation_rate_mmday = 9 / 2, clay_pct = 30, sand_pct = 40,
       silt_pct = 30, latitude = 0, longitude = 0, elevation_m = 100, roof_area_m2 = 0,
       available_space_m2 = 0, roof_type = PNone, infiltration_rate_mmhr = 10,
       runoff_coefficient = 4 / 5, annual_runoff_m3 = 0, rainfall_intensity = 50 / 121,
       soil_water_capacity = 25, roof_efficiency = 0, climate_aridity = 3285 / 2473,
       harvest_potential = 0, temperature_factor = 5 / 6, elevation_factor = 1 / 10 \<rparr>"






section \<open>Properties\<close>

subsection \<open>Sequencing, numbers and the monthly loop\<close>


lemma and_then_Inr_iff: "and_then m k = Inr y \<longleftrightarrow> (\<exists>x. m = Inr x \<and> k x = Inr y)"
  by (cases m) (simp_all add: and_then_def)

lemma and_then_Inr [simp]: "and_then (Inr x) k = k x"
  by (simp add: and_then_def)

lemma and_then_Inl [simp]: "and_then (Inl e) k = Inl e"
  by (simp add: and_then_def)

lemma update_fresh: "k \<notin> fst ` set al \<Longrightarrow> AList.update k v al = al @ [(k, v)]"
  by (induction al) auto

lemma monthly_loop_appends:
  assumes "distinct (map fst xs)"
    and "fst ` set xs \<inter> fst ` set h = {}"
    and "fst ` set xs \<inter> fst ` set s = {}"
    and "\<forall>m \<in> fst ` set xs. map_of days_in_month m \<noteq> None"
  shows "monthly_loop a xs (h, s) = Inr
     (h @ map (\<lambda>(m, p). (m, py_int (a * p))) xs,
      s @ map (\<lambda>(m, p). (m, py_int (max (of_int (daily_usage * the (map_of days_in_month m)) - a * p) 0
                                  * (12 / 10)))) xs)"
  using assms
proof (induction xs arbitrary: h s)
  case Nil
  then show ?case by simp
next
  case (Cons x xs)
  obtain m p where x: "x = (m, p)" by (cases x)
  from Cons.prems x obtain d where d: "map_of days_in_month m = Some d" by auto
  have fresh: "m \<notin> fst ` set h" "m \<notin> fst ` set s"
    using Cons.prems x by auto
  have step: "monthly_loop a (x # xs) (h, s) =
      monthly_loop a xs (h @ [(m, py_int (a * p))],
        s @ [(m, py_int (max (of_int (daily_usage * d) - a * p) 0 * (12 / 10)))])"
    by (simp add: x d update_fresh fresh Let_def)
  have "monthly_loop a xs (h @ [(m, py_int (a * p))],
        s @ [(m, py_int (max (of_int (daily_usage * d) - a * p) 0 * (12 / 10)))]) = Inr
     ((h @ [(m, py_int (a * p))]) @ map (\<lambda>(m, p). (m, py_int (a * p))) xs,
      (s @ [(m, py_int (max (of_int (daily_usage * d) - a * p) 0 * (12 / 10)))]) @
        map (\<lambda>(m, p). (m, py_int (max (of_int (daily_usage * the (map_of days_in_month m)) - a * p) 0
                                  * (12 / 10)))) xs)"
    using Cons.prems x by (intro Cons.IH) auto
  then show ?case
    unfolding step by (simp add: x d)
qed

lemma distribution_distinct: "distinct (map fst monthly_rainfall_distribution)"
  by (simp add: monthly_rainfall_distribution_def)

lemma distribution_days: "\<forall>m \<in> fst ` set monthly_rainfall_distribution. map_of days_in_month m \<noteq> None"
  by (simp add: monthly_rainfall_distribution_def days_in_month_def)

lemma monthly_loop_plan:
  "monthly_loop a monthly_rainfall_distribution ([], []) = Inr
     (map (\<lambda>(m, p). (m, py_int (a * p))) monthly_rainfall_distribution,
      map (\<lambda>(m, p). (m, py_int (max (of_int (daily_usage * the (map_of days_in_month m)) - a * p) 0
                                  * (12 / 10)))) monthly_rainfall_distribution)"
  using monthly_loop_appends [OF distribution_distinct _ _ distribution_days, of "[]" "[]" a]
  by simp



lemma py_num_float: "py_num v = Some x \<Longrightarrow> py_float parse v = Inr x"
  by (cases v) auto

lemma py_num_coerce: "py_num v = Some x \<Longrightarrow> coerce parse v = x"
  by (simp add: coerce_def py_num_float)

lemma py_num_mul: "py_num v = Some x \<Longrightarrow> py_mul_float v y = Inr (x * y)"
  by (cases v) auto


lemma py_mul_float_Inl: "py_mul_float v y = Inl e \<Longrightarrow> e = TypeError \<and> py_num v = None"
  by (cases v) auto

lemma annual_harvestable_of_num:
  "py_num v = Some roof \<Longrightarrow>
   annual_harvestable_of v f =
     Inr (spec_annual_harvestable_liters roof (annual_rainfall_mm f) (runoff_coefficient f))"
  by (simp add: annual_harvestable_of_def spec_annual_harvestable_liters_def py_num_mul)


lemma calculate_water_balance_eq:
  "calculate_water_balance v f =
     and_then (annual_harvestable_of v f) (\<lambda>a. Inr
       \<lparr> annual_harvestable = a,
         monthly_harvestable = map (\<lambda>(m, p). (m, py_int (a * p))) monthly_rainfall_distribution,
         monthly_storage_requirements =
           map (\<lambda>(m, p). (m, py_int (max (of_int (daily_usage * the (map_of days_in_month m)) - a * p) 0
                                  * (12 / 10)))) monthly_rainfall_distribution,
         tank_capacity = min (a * (3 / 10)) (of_int (daily_usage * monsoon_days)) \<rparr>)"
  by (simp add: calculate_water_balance_def monthly_loop_plan)


lemma derive_features_Inr:
  assumes "derive_features parse w d = Inr f"
  shows "\<exists>vr. w ''annual_rainfall_mm'' = Some vr \<and> annual_rainfall_mm f = coerce parse vr"
    and "py_float parse (dict_get_default d ''runoff_coefficient'' (PFloat (8 / 10)))
           = Inr (runoff_coefficient f)"
    and "roof_area_m2 f = coerce parse (dict_get d ''roof_area_m2'')"
    and "harvest_potential f = annual_rainfall_mm f * roof_area_m2 f * runoff_coefficient f / 1000"
    and "annual_runoff_m3 f = coerce parse (dict_get_default d ''annual_runoff_m3'' (PInt 0))"
  using assms
  by (auto simp: derive_features_def and_then_Inr_iff Let_def dict_index_def py_truediv_def
      split: option.splits if_splits)

lemma predict_Inr:
  assumes "predict parse models w d = Inr r"
  shows "\<exists>f0 f wb. derive_features parse w d = Inr f0
           \<and> recompute_annual_runoff (dict_get d ''roof_area_m2'') f0 = Inr f
           \<and> calculate_water_balance (dict_get d ''roof_area_m2'') f = Inr wb
           \<and> recommended_tank_capacity_liters r = py_int (tank_capacity wb)
           \<and> annual_harvestable_liters r = py_int (annual_harvestable wb)
           \<and> response_monthly_harvestable r = monthly_harvestable wb
           \<and> response_monthly_storage_requirements r = monthly_storage_requirements wb"
  using assms
  by (auto simp: predict_def and_then_Inr_iff Let_def)

lemma recompute_annual_runoff_Inr:
  assumes "recompute_annual_runoff v f0 = Inr f"
  shows "annual_rainfall_mm f = annual_rainfall_mm f0"
    and "runoff_coefficient f = runoff_coefficient f0"
    and "roof_area_m2 f = roof_area_m2 f0"
    and "harvest_potential f = harvest_potential f0"
  using assms
  by (auto simp: recompute_annual_runoff_def and_then_Inr_iff Let_def split: if_splits)

lemma recompute_annual_runoff_num:
  "py_num v = Some x \<Longrightarrow> \<exists>f. recompute_annual_runoff v f0 = Inr f"
  by (simp add: recompute_annual_runoff_def py_num_mul Let_def)




lemma returned_value_Inr: "returned_value field (Inr r) = Some (field r)"
  by (simp add: returned_value_def)


lemma default_weather_rainfall: "default_weather ''annual_rainfall_mm'' = Some (PInt 1200)"
  by (simp add: default_weather_def)

lemma roof_only_request_roof: "dict_get (roof_only_request v) ''roof_area_m2'' = v"
  by (simp add: roof_only_request_def dict_get_def)

lemma roof_only_request_runoff:
  "dict_get_default (roof_only_request v) ''runoff_coefficient'' dflt = dflt"
  by (simp add: roof_only_request_def dict_get_default_def)

subsection \<open>Tank capacity\<close>




lemma predict_numeric:
  assumes "predict parse models weather_data data = Inr r"
    and "weather_data ''annual_rainfall_mm'' = Some v_rain"
    and "py_num v_rain = Some rainfall"
    and "py_num (dict_get data ''roof_area_m2'') = Some roof_area"
    and "py_num (dict_get_default data ''runoff_coefficient'' (PFloat (8 / 10))) = Some coefficient"
    and "annual = spec_annual_harvestable_liters roof_area rainfall coefficient"
  shows "response_monthly_harvestable r =
           map (\<lambda>(m, p). (m, py_int (annual * p))) monthly_rainfall_distribution"
    and "response_monthly_storage_requirements r =
           map (\<lambda>(m, p). (m, py_int (max (of_int (daily_usage * the (map_of days_in_month m))
                                          - annual * p) 0 * (12 / 10))))
             monthly_rainfall_distribution"
    and "annual_harvestable_liters r = py_int annual"
    and "recommended_tank_capacity_liters r = py_int (min (annual * (3 / 10)) 72000)"
proof -
  from assms(1) obtain f0 f wb where
    f0: "derive_features parse weather_data data = Inr f0" and
    f: "recompute_annual_runoff (dict_get data ''roof_area_m2'') f0 = Inr f" and
    wb: "calculate_water_balance (dict_get data ''roof_area_m2'') f = Inr wb" and
    r: "recommended_tank_capacity_liters r = py_int (tank_capacity wb)"
       "annual_harvestable_liters r = py_int (annual_harvestable wb)"
       "response_monthly_harvestable r = monthly_harvestable wb"
       "response_monthly_storage_requirements r = monthly_storage_requirements wb"
    using predict_Inr by blast
  have rain: "annual_rainfall_mm f = rainfall"
    using derive_features_Inr(1) [OF f0] recompute_annual_runoff_Inr(1) [OF f] assms(2,3)
    by (auto simp: py_num_coerce)
  have coeff: "runoff_coefficient f = coefficient"
    using derive_features_Inr(2) [OF f0] recompute_annual_runoff_Inr(2) [OF f]
      py_num_float [OF assms(5), of parse]
    by simp
  have a: "annual_harvestable_of (dict_get data ''roof_area_m2'') f = Inr annual"
    by (simp add: annual_harvestable_of_num [OF assms(4)] rain coeff assms(6))
  from wb have wb_eq: "wb =
       \<lparr> annual_harvestable = annual,
         monthly_harvestable = map (\<lambda>(m, p). (m, py_int (annual * p))) monthly_rainfall_distribution,
         monthly_storage_requirements =
           map (\<lambda>(m, p). (m, py_int (max (of_int (daily_usage * the (map_of days_in_month m)) - annual * p) 0
                                  * (12 / 10)))) monthly_rainfall_distribution,
         tank_capacity = min (annual * (3 / 10)) (of_int (daily_usage * monsoon_days)) \<rparr>"
    by (simp add: calculate_water_balance_eq a)
  show "response_monthly_harvestable r =
           map (\<lambda>(m, p). (m, py_int (annual * p))) monthly_rainfall_distribution"
    by (simp add: r wb_eq)
  show "response_monthly_storage_requirements r =
           map (\<lambda>(m, p). (m, py_int (max (of_int (daily_usage * the (map_of days_in_month m))
                                          - annual * p) 0 * (12 / 10))))
             monthly_rainfall_distribution"
    by (simp add: r wb_eq)
  show "annual_harvestable_liters r = py_int annual"
    by (simp add: r wb_eq)
  show "recommended_tank_capacity_liters r = py_int (min (annual * (3 / 10)) 72000)"
    by (simp add: r wb_eq daily_usage_def monsoon_days_def)
qed



subsection \<open>The monthly plan\<close>













subsection \<open>A roof area of zero\<close>

text \<open>
  C4. When the roof area is the number zero, the water-balance calculator does not fail:
  it returns an annual harvest of 0, a harvestable value of 0 for every month, and for
  every month the storage requirement \<open>floor(800 * days_in_month * 1.2)\<close>, February
  counting 28 days.
\<close>

theorem zero_roof_area_balance:
  assumes "py_num roof_area = Some 0"
  shows "calculate_water_balance roof_area f = Inr
     \<lparr> annual_harvestable = 0,
       monthly_harvestable = map (\<lambda>(m, d). (m, 0)) days_in_month,
       monthly_storage_requirements =
         map (\<lambda>(m, d). (m, \<lfloor>800 * rat_of_int d * (12 / 10)\<rfloor>)) days_in_month,
       tank_capacity = 0 \<rparr>"
proof -
  have annual: "annual_harvestable_of roof_area f = Inr 0"
    by (simp add: annual_harvestable_of_num [OF assms] spec_annual_harvestable_liters_def)
  have harvest: "map (\<lambda>(m, p). (m, py_int (0 * p))) monthly_rainfall_distribution =
      map (\<lambda>(m, d). (m, 0)) days_in_month"
    by (simp add: monthly_rainfall_distribution_def days_in_month_def py_int_def)
  have storage: "map (\<lambda>(m, p). (m, py_int (max (of_int (daily_usage * the (map_of days_in_month m))
        - 0 * p) 0 * (12 / 10)))) monthly_rainfall_distribution =
      map (\<lambda>(m, d). (m, \<lfloor>800 * rat_of_int d * (12 / 10)\<rfloor>)) days_in_month"
    by (simp add: monthly_rainfall_distribution_def days_in_month_def daily_usage_def py_int_def)
  show ?thesis
    unfolding calculate_water_balance_eq annual and_then_Inr
    using harvest storage by (simp add: daily_usage_def monsoon_days_def)
qed

text \<open>The theorem at the integer 0, with the twelve entries written out.\<close>

theorem zero_roof_area_balance_witness:
  "py_num (PInt 0) = Some 0
   \<and> calculate_water_balance (PInt 0) zero_roof_features = Inr
     \<lparr> annual_harvestable = 0,
       monthly_harvestable =
         [(''January'', 0), (''February'', 0), (''March'', 0), (''April'', 0), (''May'', 0),
          (''June'', 0), (''July'', 0), (''August'', 0), (''September'', 0), (''October'', 0),
          (''November'', 0), (''December'', 0)],
       monthly_storage_requirements =
         [(''January'', 29760), (''February'', 26880), (''March'', 29760), (''April'', 28800),
          (''May'', 29760), (''June'', 28800), (''July'', 29760), (''August'', 29760),
          (''September'', 28800), (''October'', 29760), (''November'', 28800),
          (''December'', 29760)],
       tank_capacity = 0 \<rparr>"
proof -
  have zero: "py_num (PInt 0) = Some 0"
    by simp
  show ?thesis
    using zero_roof_area_balance [OF zero, of zero_roof_features]
    by (simp add: days_in_month_def)
qed

subsection \<open>Which requests are rejected\<close>

text \<open>
  The feature derivation raises in exactly these cases: a weather key is missing
  (\<open>KeyError\<close>), \<open>float(runoff_coefficient)\<close> raises, or one of the three divisors is
  zero. The second divisor is \<open>available_space_m2 + 1\<close>, and \<open>available_space_m2\<close>
  defaults to the roof area of the request.
\<close>

lemma and_then_weak_cong: "m = m' \<Longrightarrow> and_then m k = and_then m' k"
  by simp

lemma and_then_truediv_isl:
  "isl (and_then (py_truediv x y) k) \<longleftrightarrow> y = 0 \<or> isl (k (x / y))"
  by (simp add: py_truediv_def)

lemma derive_features_raises_iff:
  "isl (derive_features parse weather_data data) \<longleftrightarrow>
     weather_data ''annual_rainfall_mm'' = None
   \<or> weather_data ''max_daily_rainfall_mm'' = None
   \<or> weather_data ''rainy_days_count'' = None
   \<or> weather_data ''avg_temperature_c'' = None
   \<or> weather_data ''evaporation_rate_mmday'' = None
   \<or> isl (py_float parse (dict_get_default data ''runoff_coefficient'' (PFloat (8 / 10))))
   \<or> coerce parse (dict_get weather_data ''rainy_days_count'') + 1 = 0
   \<or> coerce parse (dict_get_default data ''available_space_m2'' (dict_get data ''roof_area_m2''))
        + 1 = 0
   \<or> coerce parse (dict_get weather_data ''annual_rainfall_mm'') / 365 + 1 / 10 = 0"
proof (cases "weather_data ''annual_rainfall_mm''")
  case None
  then show ?thesis by (simp cong: and_then_weak_cong add: derive_features_def dict_index_def)
next
  case v1: (Some v1)
  show ?thesis
  proof (cases "weather_data ''max_daily_rainfall_mm''")
    case None
    then show ?thesis by (simp cong: and_then_weak_cong add: derive_features_def dict_index_def v1)
  next
    case v2: (Some v2)
    show ?thesis
    proof (cases "weather_data ''rainy_days_count''")
      case None
      then show ?thesis by (simp cong: and_then_weak_cong add: derive_features_def dict_index_def v1 v2)
    next
      case v3: (Some v3)
      show ?thesis
      proof (cases "weather_data ''avg_temperature_c''")
        case None
        then show ?thesis by (simp cong: and_then_weak_cong add: derive_features_def dict_index_def v1 v2 v3)
      next
        case v4: (Some v4)
        show ?thesis
        proof (cases "weather_data ''evaporation_rate_mmday''")
          case None
          then show ?thesis by (simp cong: and_then_weak_cong add: derive_features_def dict_index_def v1 v2 v3 v4)
        next
          case v5: (Some v5)
          show ?thesis
          proof (cases "py_float parse (dict_get_default data ''runoff_coefficient''
              (PFloat (8 / 10)))")
            case (Inl e)
            then show ?thesis
              by (simp cong: and_then_weak_cong add: derive_features_def dict_index_def v1 v2 v3 v4 v5)
          next
            case (Inr c)
            then show ?thesis
              by (simp cong: and_then_weak_cong add: derive_features_def dict_index_def v1 v2 v3 v4 v5
                  and_then_truediv_isl Let_def dict_get_def [of weather_data])
          qed
        qed
      qed
    qed
  qed
qed

lemma predict_rejected_iff:
  "rejected_with (predict parse models weather_data data) =
     (case derive_features parse weather_data data of
        Inl e \<Rightarrow> Some e
      | Inr f \<Rightarrow> if py_num (dict_get data ''roof_area_m2'') = None then Some TypeError else None)"
proof (cases "derive_features parse weather_data data")
  case (Inl e)
  then show ?thesis
    by (simp add: predict_def rejected_with_def)
next
  case (Inr f0)
  show ?thesis
  proof (cases "py_num (dict_get data ''roof_area_m2'')")
    case None
    then have mul: "py_mul_float (dict_get data ''roof_area_m2'') y = Inl TypeError" for y
      by (cases "dict_get data ''roof_area_m2''") auto
    have "predict parse models weather_data data = Inl TypeError"
      by (simp add: predict_def Inr recompute_annual_runoff_def annual_harvestable_of_def mul
          Let_def)
    then show ?thesis
      by (simp add: Inr None rejected_with_def)
  next
    case (Some x)
    obtain f where f: "recompute_annual_runoff (dict_get data ''roof_area_m2'') f0 = Inr f"
      using recompute_annual_runoff_num [OF Some] by blast
    have "\<exists>r. predict parse models weather_data data = Inr r"
      by (simp add: predict_def Inr f annual_harvestable_of_num [OF Some]
          calculate_water_balance_eq Let_def)
    then show ?thesis
      by (auto simp: Inr Some rejected_with_def)
  qed
qed




lemma py_int_mono: "x \<le> y \<Longrightarrow> py_int x \<le> py_int y"
proof -
  assume le: "x \<le> y"
  have "\<lceil>x\<rceil> \<le> \<lfloor>y\<rfloor>" if "x < 0" "0 \<le> y"
  proof -
    have "\<lceil>x\<rceil> \<le> 0" using that(1) by (simp add: ceiling_le_zero)
    moreover have "0 \<le> \<lfloor>y\<rfloor>" using that(2) by simp
    ultimately show ?thesis by linarith
  qed
  then show ?thesis
    using le by (auto simp: py_int_def floor_mono ceiling_mono)
qed

lemma dict_get_default_update_other:
  "k \<noteq> k' \<Longrightarrow> dict_get_default (d(k' \<mapsto> v)) k dflt = dict_get_default d k dflt"
  by (simp add: dict_get_default_def)

lemma dict_get_update: "dict_get (d(k \<mapsto> v)) k = v"
  by (simp add: dict_get_def)

lemma returned_value_Some: "returned_value field m = Some y \<Longrightarrow> \<exists>r. m = Inr r \<and> field r = y"
  by (cases m) (auto simp: returned_value_def)

lemma string_roof_features:
  "returned_value roof_area_m2
     (derive_features parse_digits default_weather (roof_only_request (PStr ''100''))) = Some 100"
  by code_simp

lemma unit_and_double_roof:
  "returned_value harvest_potential
     (derive_features parse_digits default_weather (roof_only_request (PInt 1))) = Some (24 / 25)"
  "returned_value harvest_potential
     (derive_features parse_digits default_weather
        ((roof_only_request (PInt 1))(''roof_area_m2'' \<mapsto> PInt 2))) = Some (48 / 25)"
  "returned_value annual_harvestable_liters
     (predict parse_digits constant_models default_weather (roof_only_request (PInt 1))) = Some 960"
  "returned_value annual_harvestable_liters
     (predict parse_digits constant_models default_weather
        ((roof_only_request (PInt 1))(''roof_area_m2'' \<mapsto> PInt 2))) = Some 1920"
  "returned_value recommended_tank_capacity_liters
     (predict parse_digits constant_models default_weather (roof_only_request (PInt 1))) = Some 288"
  "returned_value recommended_tank_capacity_liters
     (predict parse_digits constant_models default_weather
        ((roof_only_request (PInt 1))(''roof_area_m2'' \<mapsto> PInt 2))) = Some 576"
  by code_simp+

subsection \<open>Values that do not parse\<close>

text \<open>
  C6 does not hold of the handler. The coercion loop replaces an unparsable value by
  \<open>0.0\<close>, but two fields escape it. \<open>runoff_coefficient\<close> is converted by a bare
  \<open>float(...)\<close> while the feature dictionary is built, before the loop and outside its
  \<open>try\<close>: the request \<open>{roof_area_m2: 100, runoff_coefficient: "abc"}\<close> ends with
  \<open>ValueError\<close>. \<open>roof_area_m2\<close> is coerced in the dictionary, but the harvest
  arithmetic multiplies the value of the request: \<open>{roof_area_m2: "abc"}\<close> ends with
  \<open>TypeError\<close>. For comparison, \<open>{roof_area_m2: 100, clay_pct: "abc"}\<close> is answered,
  with \<open>clay_pct\<close> coerced to 0.
\<close>

theorem unparsable_field_aborts_request:
  "rejected_with (predict parse_digits constant_models default_weather
      (map_of [(''roof_area_m2'', PInt 100), (''runoff_coefficient'', PStr ''abc'')]))
      = Some ValueError
   \<and> rejected_with (predict parse_digits constant_models default_weather
      (roof_only_request (PStr ''abc''))) = Some TypeError
   \<and> rejected_with (predict parse_digits constant_models default_weather
      (map_of [(''roof_area_m2'', PInt 100), (''clay_pct'', PStr ''abc'')])) = None
   \<and> returned_value clay_pct (derive_features parse_digits default_weather
      (map_of [(''roof_area_m2'', PInt 100), (''clay_pct'', PStr ''abc'')])) = Some 0"
  by code_simp

text \<open>
  C10. When \<open>roof_area_m2\<close> is supplied as a string, the request is rejected, whether
  or not the string parses. If the feature derivation succeeds, the coerced feature
  \<open>roof_area_m2\<close> holds the parsed float, or \<open>0.0\<close> for a string that does not parse,
  yet the annual-harvest computation and the water-balance calculator, which multiply
  the string of the request, raise \<open>TypeError\<close>, and so does the handler.
\<close>

theorem string_roof_area_rejected:
  assumes "data ''roof_area_m2'' = Some (PStr s)"
  shows "rejected_with (predict parse models weather_data data) \<noteq> None
       \<and> (\<forall>f. derive_features parse weather_data data = Inr f \<longrightarrow>
            roof_area_m2 f = (case parse s of None \<Rightarrow> 0 | Some x \<Rightarrow> x)
            \<and> annual_harvestable_of (dict_get data ''roof_area_m2'') f = Inl TypeError
            \<and> calculate_water_balance (dict_get data ''roof_area_m2'') f = Inl TypeError
            \<and> predict parse models weather_data data = Inl TypeError)"
proof -
  have raw: "dict_get data ''roof_area_m2'' = PStr s"
    by (simp add: dict_get_def assms)
  have rejected: "rejected_with (predict parse models weather_data data) \<noteq> None"
    by (simp add: predict_rejected_iff raw split: sum.splits)
  have "roof_area_m2 f = (case parse s of None \<Rightarrow> 0 | Some x \<Rightarrow> x)
      \<and> annual_harvestable_of (dict_get data ''roof_area_m2'') f = Inl TypeError
      \<and> calculate_water_balance (dict_get data ''roof_area_m2'') f = Inl TypeError
      \<and> predict parse models weather_data data = Inl TypeError"
    if f: "derive_features parse weather_data data = Inr f" for f
  proof -
    have coerced: "roof_area_m2 f = (case parse s of None \<Rightarrow> 0 | Some x \<Rightarrow> x)"
      by (simp add: derive_features_Inr(3) [OF f] raw coerce_def split: option.splits)
    have harvest: "annual_harvestable_of (PStr s) g = Inl TypeError" for g
      by (simp add: annual_harvestable_of_def)
    have balance: "calculate_water_balance (PStr s) g = Inl TypeError" for g
      by (simp add: calculate_water_balance_def harvest)
    have "rejected_with (predict parse models weather_data data) = Some TypeError"
      by (simp add: predict_rejected_iff f raw)
    then have "predict parse models weather_data data = Inl TypeError"
      by (simp add: rejected_with_def split: sum.splits)
    then show ?thesis
      using coerced harvest balance raw by simp
  qed
  then show ?thesis
    using rejected by blast
qed

text \<open>
  The theorem at \<open>{roof_area_m2: "100"}\<close>: the feature is 100.0 and the request is
  rejected with \<open>TypeError\<close>.
\<close>

theorem string_roof_area_rejected_witness:
  "roof_only_request (PStr ''100'') ''roof_area_m2'' = Some (PStr ''100'')
   \<and> returned_value roof_area_m2
        (derive_features parse_digits default_weather (roof_only_request (PStr ''100'')))
      = Some 100
   \<and> rejected_with (predict parse_digits constant_models default_weather
        (roof_only_request (PStr ''100''))) = Some TypeError"
proof -
  have supplied: "roof_only_request (PStr ''100'') ''roof_area_m2'' = Some (PStr ''100'')"
    by (simp add: roof_only_request_def)
  obtain f where f: "derive_features parse_digits default_weather
      (roof_only_request (PStr ''100'')) = Inr f"
    using string_roof_features by (auto simp: returned_value_def split: sum.splits)
  have "predict parse_digits constant_models default_weather
      (roof_only_request (PStr ''100'')) = Inl TypeError"
    using string_roof_area_rejected [where data = "roof_only_request (PStr ''100'')"
        and s = "''100''" and parse = parse_digits and models = constant_models
        and weather_data = default_weather, OF supplied] f
    by blast
  then show ?thesis
    using supplied string_roof_features by (simp add: rejected_with_def)
qed

subsection \<open>Monotonicity in the roof area\<close>

text \<open>
  C9. Take two answered requests that differ only in \<open>roof_area_m2\<close>, both roof areas
  numbers that are not negative, under the same weather record, with a rainfall and a
  runoff coefficient that are not negative. The request with the larger roof area has a
  \<open>harvest_potential\<close>, an \<open>annual_harvestable_liters\<close> and a recommended tank capacity
  at least as large as those of the other.
\<close>

theorem roof_area_monotone:
  assumes "predict parse models weather_data data1 = Inr r1"
    and "predict parse models weather_data data2 = Inr r2"
    and "derive_features parse weather_data data1 = Inr f1"
    and "derive_features parse weather_data data2 = Inr f2"
    and "data2 = data1(''roof_area_m2'' \<mapsto> v2)"
    and "py_num (dict_get data1 ''roof_area_m2'') = Some a1"
    and "py_num v2 = Some a2"
    and "0 \<le> a1" and "a1 \<le> a2"
    and "weather_data ''annual_rainfall_mm'' = Some v_rain"
    and "py_num v_rain = Some rainfall"
    and "py_num (dict_get_default data1 ''runoff_coefficient'' (PFloat (8 / 10))) = Some coefficient"
    and "0 \<le> rainfall" and "0 \<le> coefficient"
  shows "harvest_potential f1 \<le> harvest_potential f2
       \<and> annual_harvestable_liters r1 \<le> annual_harvestable_liters r2
       \<and> recommended_tank_capacity_liters r1 \<le> recommended_tank_capacity_liters r2"
proof -
  have roof2: "py_num (dict_get data2 ''roof_area_m2'') = Some a2"
    by (simp add: assms(5,7) dict_get_update)
  have coeff2: "py_num (dict_get_default data2 ''runoff_coefficient'' (PFloat (8 / 10)))
      = Some coefficient"
    using assms(12) by (simp add: assms(5) dict_get_default_update_other)
  note p1 = predict_numeric [OF assms(1) assms(10,11) assms(6) assms(12) refl]
  note p2 = predict_numeric [OF assms(2) assms(10,11) roof2 coeff2 refl]
  have annual: "spec_annual_harvestable_liters a1 rainfall coefficient
      \<le> spec_annual_harvestable_liters a2 rainfall coefficient"
    using assms(9,13,14)
    by (simp add: spec_annual_harvestable_liters_def mult_right_mono)
  have rain: "annual_rainfall_mm f1 = rainfall" "annual_rainfall_mm f2 = rainfall"
    using derive_features_Inr(1) [OF assms(3)] derive_features_Inr(1) [OF assms(4)] assms(10,11)
    by (auto simp: py_num_coerce)
  have coeff: "runoff_coefficient f1 = coefficient" "runoff_coefficient f2 = coefficient"
    using derive_features_Inr(2) [OF assms(3)] derive_features_Inr(2) [OF assms(4)]
      py_num_float [OF assms(12), of parse] py_num_float [OF coeff2, of parse]
    by simp_all
  have roof: "roof_area_m2 f1 = a1" "roof_area_m2 f2 = a2"
    using derive_features_Inr(3) [OF assms(3)] derive_features_Inr(3) [OF assms(4)]
      py_num_coerce [OF assms(6), of parse] py_num_coerce [OF roof2, of parse]
    by simp_all
  have potential: "harvest_potential f1 \<le> harvest_potential f2"
    using assms(9,13,14)
    by (simp add: derive_features_Inr(4) [OF assms(3)] derive_features_Inr(4) [OF assms(4)]
        rain coeff roof mult_left_mono mult_right_mono divide_right_mono)
  have liters: "annual_harvestable_liters r1 \<le> annual_harvestable_liters r2"
    using annual by (simp add: p1(3) p2(3) py_int_mono)
  have "min (spec_annual_harvestable_liters a1 rainfall coefficient * (3 / 10)) 72000
      \<le> min (spec_annual_harvestable_liters a2 rainfall coefficient * (3 / 10)) 72000"
    using annual by (simp add: min_def)
  then have tank: "recommended_tank_capacity_liters r1 \<le> recommended_tank_capacity_liters r2"
    by (simp only: p1(4) p2(4) py_int_mono)
  show ?thesis
    using potential liters tank by simp
qed

text \<open>The theorem at the roof areas 1 and 2 under the default weather record.\<close>

theorem roof_area_monotone_witness:
  "returned_value harvest_potential
     (derive_features parse_digits default_weather (roof_only_request (PInt 1))) = Some (24 / 25)
   \<and> returned_value harvest_potential
     (derive_features parse_digits default_weather
        ((roof_only_request (PInt 1))(''roof_area_m2'' \<mapsto> PInt 2))) = Some (48 / 25)
   \<and> returned_value annual_harvestable_liters
     (predict parse_digits constant_models default_weather (roof_only_request (PInt 1))) = Some 960
   \<and> returned_value annual_harvestable_liters
     (predict parse_digits constant_models default_weather
        ((roof_only_request (PInt 1))(''roof_area_m2'' \<mapsto> PInt 2))) = Some 1920
   \<and> returned_value recommended_tank_capacity_liters
     (predict parse_digits constant_models default_weather (roof_only_request (PInt 1))) = Some 288
   \<and> returned_value recommended_tank_capacity_liters
     (predict parse_digits constant_models default_weather
        ((roof_only_request (PInt 1))(''roof_area_m2'' \<mapsto> PInt 2))) = Some 576
   \<and> (24 / 25 :: rat) \<le> 48 / 25 \<and> (960 :: int) \<le> 1920 \<and> (288 :: int) \<le> 576"
proof -
  obtain r1 where r1: "predict parse_digits constant_models default_weather
      (roof_only_request (PInt 1)) = Inr r1"
    and l1: "annual_harvestable_liters r1 = 960"
    using returned_value_Some [OF unit_and_double_roof(3)] by blast
  obtain r2 where r2: "predict parse_digits constant_models default_weather
      ((roof_only_request (PInt 1))(''roof_area_m2'' \<mapsto> PInt 2)) = Inr r2"
    and l2: "annual_harvestable_liters r2 = 1920"
    using returned_value_Some [OF unit_and_double_roof(4)] by blast
  obtain f1 where f1: "derive_features parse_digits default_weather
      (roof_only_request (PInt 1)) = Inr f1"
    and h1: "harvest_potential f1 = 24 / 25"
    using returned_value_Some [OF unit_and_double_roof(1)] by blast
  obtain f2 where f2: "derive_features parse_digits default_weather
      ((roof_only_request (PInt 1))(''roof_area_m2'' \<mapsto> PInt 2)) = Inr f2"
    and h2: "harvest_potential f2 = 48 / 25"
    using returned_value_Some [OF unit_and_double_roof(2)] by blast
  have roof: "py_num (dict_get (roof_only_request (PInt 1)) ''roof_area_m2'') = Some 1"
    by (simp add: roof_only_request_roof)
  have coeff: "py_num (dict_get_default (roof_only_request (PInt 1)) ''runoff_coefficient''
      (PFloat (8 / 10))) = Some (8 / 10)"
    by (simp add: roof_only_request_runoff)
  have rain: "py_num (PInt 1200) = Some 1200" and two: "py_num (PInt 2) = Some 2"
    by simp_all
  have "harvest_potential f1 \<le> harvest_potential f2
      \<and> annual_harvestable_liters r1 \<le> annual_harvestable_liters r2
      \<and> recommended_tank_capacity_liters r1 \<le> recommended_tank_capacity_liters r2"
    by (rule roof_area_monotone [OF r1 r2 f1 f2 refl roof two _ _ default_weather_rainfall rain coeff])
      simp_all
  then show ?thesis
    using unit_and_double_roof by simp
qed

subsection \<open>Recharge metrics\<close>

text \<open>
  A temperature, humidity, wind speed or rainfall that is not a number makes the method
  return the empty dictionary.
\<close>

lemma recharge_metrics_empty:
  assumes "py_num (dict_get_default data ''avg_temperature_c'' (PInt 25)) = None
         \<or> py_num (dict_get_default data ''current_humidity_percent'' (PInt 70)) = None
         \<or> py_num (dict_get_default data ''current_wind_speed_kmh'' (PInt 10)) = None
         \<or> py_num (dict_get_default data ''annual_rainfall_mm'' (PInt 1200)) = None"
  shows "calculate_recharge_metrics now data = None"
  using assms
  by (auto simp: calculate_recharge_metrics_def Let_def split: option.splits)



subsection \<open>Dependence on the clock\<close>




end
